theory Spec2Isabelle
  imports Main "HOL-Library.Word"
begin

unbundle bit_operations_syntax

section \<open>The foreign runtime seen by raii\_wrapper.h\<close>

text \<open>
  raii\_wrapper.h is a header of thin C++ wrappers over the host runtime's C interface
  (Python.h). The wrappers are embedded below function by function. The runtime's entry
  points they call are declared in Python.h, which is not a file of the repository; they are
  modelled here on a small fragment of the runtime: a store of objects with a reference
  count each, an error indicator, and a bump allocator that can run out of memory.

  A C++ data member \<open>x_\<close> is the record field \<open>x\<close> (a name cannot end in an underscore
  here); a member function \<open>C::f\<close> is the constant \<open>C_f\<close>.
\<close>

type_synonym addr = nat

text \<open>A \<open>PyObject*\<close>: \<open>None\<close> is the null pointer.\<close>

type_synonym PyObject_ptr = "addr option"

text \<open>\<open>long long\<close>: 64 bits, read as two's complement by \<open>sint\<close>.\<close>

type_synonym long_long = "64 word"

text \<open>
  \<open>double\<close>: the 64 bits of an IEEE-754 binary64 value. The wrappers only box, unbox and
  compare against zero; the single arithmetic step is the conversion from \<open>long long\<close>.
\<close>

type_synonym double = "64 word"

text \<open>A \<open>const char*\<close>: the bytes before the terminating NUL.\<close>

type_synonym c_string = string

datatype py_exc =
    TypeError | ValueError | OverflowError | BufferError | MemoryError
  | UnicodeDecodeError | SystemError

text \<open>
  The objects of the fragment: integers (unbounded), floats, strings (held as their UTF-8
  bytes), \<open>None\<close>, byte arrays (the one type here that exports a buffer), and instances of
  a user class, characterised by what their \<open>__bool__\<close> does: return a truth value
  (\<open>Inr\<close>) or raise (\<open>Inl\<close>).
\<close>

datatype py_value =
    PyLongV int
  | PyFloatV double
  | PyUnicodeV c_string
  | PyNoneV
  | PyByteArrayV "8 word list"
  | PyInstanceV "py_exc + bool"

text \<open>
  The runtime state. \<open>refcnt\<close> is the ledger of \<open>ob_refcnt\<close> per address and \<open>exports\<close> the
  ledger of buffer views handed out and not yet released per exporter; both are total, so
  that a net change can be read off at any address. Deallocation when a count reaches zero
  is the runtime's own business and is not modelled. \<open>err\<close> is the error indicator.
\<close>

record runtime =
  refcnt :: "addr \<Rightarrow> int"
  objs :: "addr \<rightharpoonup> py_value"
  exports :: "addr \<Rightarrow> int"
  err :: "py_exc option"
  next_addr :: addr
  mem_limit :: addr

subsection \<open>Reference counting\<close>


definition Py_XDECREF :: "PyObject_ptr \<Rightarrow> runtime \<Rightarrow> runtime" where
  "Py_XDECREF p rt =
     (case p of None \<Rightarrow> rt
      | Some a \<Rightarrow> rt\<lparr>refcnt := (refcnt rt)(a := refcnt rt a - 1)\<rparr>)"

section \<open>PyObjectPtr\<close>

record PyObjectPtr =
  ptr :: PyObject_ptr








definition PyObjectPtr_get :: "PyObjectPtr \<Rightarrow> PyObject_ptr" where
  "PyObjectPtr_get h = ptr h"

text \<open>\<open>explicit operator bool()\<close>.\<close>

definition PyObjectPtr_bool :: "PyObjectPtr \<Rightarrow> bool" where
  "PyObjectPtr_bool h = (ptr h \<noteq> None)"


definition PyObjectPtr_reset :: "PyObjectPtr \<Rightarrow> PyObject_ptr \<Rightarrow> runtime \<Rightarrow> PyObjectPtr \<times> runtime" where
  "PyObjectPtr_reset h p rt = (h\<lparr>ptr := p\<rparr>, Py_XDECREF (ptr h) rt)"

section \<open>ScopeGuard\<close>

text \<open>
  The cleanup action \<open>F\<close> is a callable without arguments. It acts on the state of the
  program, of any type \<open>'s\<close>, and either returns or exits by throwing; in both cases it
  leaves a state behind.
\<close>

datatype cpp_exception = Exception nat

datatype 's outcome = Returns 's | Throws cpp_exception 's

definition state_of :: "'s outcome \<Rightarrow> 's" where
  "state_of r = (case r of Returns s \<Rightarrow> s | Throws e s \<Rightarrow> s)"

record 's ScopeGuard =
  cleanup :: "'s \<Rightarrow> 's outcome"
  active :: bool

definition ScopeGuard_ctor :: "('s \<Rightarrow> 's outcome) \<Rightarrow> 's ScopeGuard" where
  "ScopeGuard_ctor f = \<lparr>cleanup = f, active = True\<rparr>"

text \<open>\<open>try { body } catch (...) {}\<close>: whatever the body throws is caught and dropped.\<close>

definition try_catch_all :: "'s outcome \<Rightarrow> 's outcome" where
  "try_catch_all r = (case r of Returns s \<Rightarrow> Returns s | Throws e s \<Rightarrow> Returns s)"

text \<open>\<open>~ScopeGuard()\<close>.\<close>

definition ScopeGuard_dtor :: "'s ScopeGuard \<Rightarrow> 's \<Rightarrow> 's outcome" where
  "ScopeGuard_dtor g s = (if active g then try_catch_all (cleanup g s) else Returns s)"

text \<open>
  The move constructor \<open>ScopeGuard(ScopeGuard&& other)\<close>: the new guard and what is left of
  \<open>other\<close>. The callable left in \<open>other\<close> is in its moved-from state; it is kept as it was
  here and, with \<open>active_\<close> false, never called.
\<close>

definition ScopeGuard_move :: "'s ScopeGuard \<Rightarrow> 's ScopeGuard \<times> 's ScopeGuard" where
  "ScopeGuard_move other =
     (\<lparr>cleanup = cleanup other, active = active other\<rparr>, other\<lparr>active := False\<rparr>)"

definition ScopeGuard_dismiss :: "'s ScopeGuard \<Rightarrow> 's ScopeGuard" where
  "ScopeGuard_dismiss g = g\<lparr>active := False\<rparr>"

definition make_guard :: "('s \<Rightarrow> 's outcome) \<Rightarrow> 's ScopeGuard" where
  "make_guard f = ScopeGuard_ctor f"

text \<open>
  Leaving the scope that owns a guard, either normally or while an exception propagates
  (\<open>Throws e s\<close>): the guard's destructor runs on the state reached. By the language's
  rules a destructor that exits by an exception ends the program (\<open>std::terminate\<close>, the
  result \<open>None\<close>): destructors are \<open>noexcept\<close>, and during unwinding a second exception
  cannot propagate.
\<close>

definition leave_scope :: "'s ScopeGuard \<Rightarrow> 's outcome \<Rightarrow> 's outcome option" where
  "leave_scope g r =
     (case r of
        Returns s \<Rightarrow>
          (case ScopeGuard_dtor g s of Returns s' \<Rightarrow> Some (Returns s') | Throws e s' \<Rightarrow> None)
      | Throws e0 s \<Rightarrow>
          (case ScopeGuard_dtor g s of Returns s' \<Rightarrow> Some (Throws e0 s') | Throws e s' \<Rightarrow> None))"

subsection \<open>A program's guards over time\<close>

text \<open>
  The guards a program creates from one cleanup action, numbered in order of construction:
  entry \<open>i\<close> is \<open>Some g\<close> while guard \<open>i\<close> is alive and \<open>None\<close> once it is destroyed. Guards
  cannot be copied or assigned (the copy constructor and both assignment operators are
  deleted), so the operations on a guard are moving from it into a new guard, \<open>dismiss()\<close>
  and destruction. An operation on a guard that is not alive is undefined (\<open>None\<close>).
\<close>

datatype sg_op = Move nat | Dismiss nat | Destroy nat

record 's sg_world =
  guards :: "'s ScopeGuard option list"
  st :: 's

definition live :: "'a option list \<Rightarrow> nat \<Rightarrow> 'a option" where
  "live xs i = (if i < length xs then xs ! i else None)"

fun sg_step :: "sg_op \<Rightarrow> 's sg_world \<Rightarrow> 's sg_world option" where
  "sg_step (Move i) w =
     (case live (guards w) i of
        None \<Rightarrow> None
      | Some g \<Rightarrow>
          Some (w\<lparr>guards := (guards w)[i := Some (snd (ScopeGuard_move g))]
                               @ [Some (fst (ScopeGuard_move g))]\<rparr>))"
| "sg_step (Dismiss i) w =
     (case live (guards w) i of
        None \<Rightarrow> None
      | Some g \<Rightarrow> Some (w\<lparr>guards := (guards w)[i := Some (ScopeGuard_dismiss g)]\<rparr>))"
| "sg_step (Destroy i) w =
     (case live (guards w) i of
        None \<Rightarrow> None
      | Some g \<Rightarrow>
          (case ScopeGuard_dtor g (st w) of
             Returns s' \<Rightarrow> Some \<lparr>guards = (guards w)[i := None], st = s'\<rparr>
           | Throws e s' \<Rightarrow> None))"

fun sg_run :: "sg_op list \<Rightarrow> 's sg_world \<Rightarrow> 's sg_world option" where
  "sg_run [] w = Some w"
| "sg_run (x # xs) w = (case sg_step x w of None \<Rightarrow> None | Some w' \<Rightarrow> sg_run xs w')"

text \<open>The program after \<open>auto g = make_guard(f)\<close> in state \<open>s\<close>.\<close>

definition sg_init :: "('s \<Rightarrow> 's outcome) \<Rightarrow> 's \<Rightarrow> 's sg_world" where
  "sg_init f s = \<lparr>guards = [Some (make_guard f)], st = s\<rparr>"

text \<open>The guards that would run the cleanup action if destroyed now.\<close>

definition is_active :: "'s ScopeGuard option \<Rightarrow> bool" where
  "is_active x = (case x of None \<Rightarrow> False | Some g \<Rightarrow> active g)"

definition active_ids :: "'s ScopeGuard option list \<Rightarrow> nat list" where
  "active_ids gs = filter (\<lambda>j. is_active (gs ! j)) [0..<length gs]"

text \<open>
  The contract in the spec's words, as a state machine of the cleanup obligation: it is
  pending with one guard, moves with that guard, and ends either discharged (the action
  has run, at the destruction of the guard holding it) or dismissed. \<open>n\<close> is the number of
  guards constructed so far, which is the number of the next guard.
\<close>

datatype obligation = Pending nat | Discharged | Dismissed

fun spec_step :: "sg_op \<Rightarrow> nat \<Rightarrow> obligation \<Rightarrow> obligation" where
  "spec_step (Move i) n ob = (if ob = Pending i then Pending n else ob)"
| "spec_step (Dismiss i) n ob = (if ob = Pending i then Dismissed else ob)"
| "spec_step (Destroy i) n ob = (if ob = Pending i then Discharged else ob)"

fun constructed :: "sg_op \<Rightarrow> nat \<Rightarrow> nat" where
  "constructed (Move i) n = Suc n"
| "constructed (Dismiss i) n = n"
| "constructed (Destroy i) n = n"

fun spec_run :: "sg_op list \<Rightarrow> nat \<Rightarrow> obligation \<Rightarrow> obligation" where
  "spec_run [] n ob = ob"
| "spec_run (x # xs) n ob = spec_run xs (constructed x n) (spec_step x n ob)"

text \<open>What ties a program's guards to the obligation: the invariant of the refinement.\<close>

definition sg_inv ::
  "('s \<Rightarrow> 's outcome) \<Rightarrow> 's \<Rightarrow> 's sg_world \<Rightarrow> nat \<Rightarrow> obligation \<Rightarrow> bool" where
  "sg_inv f s0 w n ob \<longleftrightarrow>
     length (guards w) = n
     \<and> (\<forall>j < n. \<forall>g. guards w ! j = Some g \<longrightarrow> cleanup g = f)
     \<and> (case ob of
          Pending i \<Rightarrow> st w = s0 \<and> i < n \<and> (\<forall>j < n. is_active (guards w ! j) \<longleftrightarrow> j = i)
        | Discharged \<Rightarrow> st w = state_of (f s0) \<and> (\<forall>j < n. \<not> is_active (guards w ! j))
        | Dismissed \<Rightarrow> st w = s0 \<and> (\<forall>j < n. \<not> is_active (guards w ! j)))"

text \<open>
  Instrumentation: the action \<open>f\<close> with a counter of its calls beside the program state.
\<close>

definition counted :: "('s \<Rightarrow> 's outcome) \<Rightarrow> nat \<times> 's \<Rightarrow> (nat \<times> 's) outcome" where
  "counted f = (\<lambda>(n, s). case f s of
                   Returns s' \<Rightarrow> Returns (Suc n, s')
                 | Throws e s' \<Rightarrow> Throws e (Suc n, s'))"

text \<open>A cleanup action that changes the state and then throws.\<close>

definition counting_thrower :: "nat \<Rightarrow> nat outcome" where
  "counting_thrower n = Throws (Exception 7) (Suc n)"

section \<open>PyObjectPtr in a program\<close>

subsection \<open>A program's handles over time\<close>










section \<open>Type converters\<close>

subsection \<open>The conversion of integers to \<open>double\<close>\<close>

text \<open>
  The nearest binary64 value of an integer, ties to even, as \<open>static_cast<double>\<close> of a
  \<open>long long\<close> and the runtime's own conversion of its integers compute it. \<open>bitlen m\<close> is
  the number of bits of \<open>m\<close>; \<open>round_mantissa m e\<close> is the 53-bit significand of \<open>m\<close>, whose
  leading bit has weight \<open>2 ^ e\<close>, and the exponent after rounding. An integer whose
  exponent exceeds 1023 has no finite double; no \<open>long long\<close> is that large.
\<close>

fun bitlen :: "nat \<Rightarrow> nat" where
  "bitlen n = (if n = 0 then 0 else Suc (bitlen (n div 2)))"

definition round_mantissa :: "nat \<Rightarrow> nat \<Rightarrow> nat \<times> nat" where
  "round_mantissa m e =
     (if e \<le> 52 then (m * 2 ^ (52 - e), e)
      else
        (let sh = e - 52;
             q = m div 2 ^ sh;
             r = m mod 2 ^ sh;
             half = 2 ^ (sh - 1);
             q' = (if half < r \<or> (r = half \<and> odd q) then q + 1 else q)
         in if q' = 2 ^ 53 then (2 ^ 52, e + 1) else (q', e)))"

definition int_fits_double :: "int \<Rightarrow> bool" where
  "int_fits_double n \<longleftrightarrow>
     n = 0 \<or> snd (round_mantissa (nat \<bar>n\<bar>) (bitlen (nat \<bar>n\<bar>) - 1)) \<le> 1023"

definition int_to_double :: "int \<Rightarrow> double" where
  "int_to_double n =
     (if n = 0 then 0
      else
        (let m = nat \<bar>n\<bar>;
             (q, e) = round_mantissa m (bitlen m - 1);
             s = (if n < 0 then 2 ^ 63 else 0)
         in word_of_nat (s + (e + 1023) * 2 ^ 52 + (q - 2 ^ 52))))"

definition ll_to_double :: "long_long \<Rightarrow> double" where
  "ll_to_double x = int_to_double (sint x)"

subsection \<open>The runtime's entry points\<close>

text \<open>
  Modelled from the spec: the runtime functions the converters delegate to
  (\<open>PyFloat_Check\<close>, \<open>PyLong_Check\<close>, \<open>PyLong_AsLongLong\<close>, \<open>PyFloat_AsDouble\<close>,
  \<open>PyUnicode_AsUTF8\<close>, \<open>PyObject_IsTrue\<close>, \<open>PyLong_FromLongLong\<close>, \<open>PyFloat_FromDouble\<close>,
  \<open>PyUnicode_FromString\<close>; all declared in Python.h). A conversion failure is a sentinel
  return value together with the runtime's error indicator; a successful call leaves the
  indicator as it found it. The sentinels and exceptions are those the runtime documents
  for each function. A result \<open>None\<close> of the model is undefined behaviour: the call read
  through a null or dangling pointer.
\<close>

definition deref :: "PyObject_ptr \<Rightarrow> runtime \<Rightarrow> py_value option" where
  "deref p rt = (case p of None \<Rightarrow> None | Some a \<Rightarrow> objs rt a)"

definition set_err :: "py_exc \<Rightarrow> runtime \<Rightarrow> runtime" where
  "set_err e rt = rt\<lparr>err := Some e\<rparr>"

text \<open>
  Modelled from the spec: \<open>PyFloat_Check\<close> and \<open>PyLong_Check\<close>, the tests for a
  floating-point-like and an integer-like object. They read the object's type.
\<close>

definition PyFloat_Check :: "PyObject_ptr \<Rightarrow> runtime \<Rightarrow> bool option" where
  "PyFloat_Check p rt =
     map_option (\<lambda>v. case v of PyFloatV _ \<Rightarrow> True | _ \<Rightarrow> False) (deref p rt)"

definition PyLong_Check :: "PyObject_ptr \<Rightarrow> runtime \<Rightarrow> bool option" where
  "PyLong_Check p rt =
     map_option (\<lambda>v. case v of PyLongV _ \<Rightarrow> True | _ \<Rightarrow> False) (deref p rt)"

text \<open>
  Modelled from the spec: \<open>PyLong_AsLongLong\<close>, the value of an integer object that fits 64 bits; \<open>-1\<close> with
  \<open>OverflowError\<close> for one that does not; \<open>-1\<close> with \<open>TypeError\<close> for an object that is not
  an integer and has no \<open>__index__\<close> (none of the fragment's other objects has one; a
  float is refused too, as from Python 3.10 on); \<open>-1\<close> with \<open>SystemError\<close> for the null
  pointer, which the function checks for.
\<close>

definition PyLong_AsLongLong :: "PyObject_ptr \<Rightarrow> runtime \<Rightarrow> (long_long \<times> runtime) option" where
  "PyLong_AsLongLong p rt =
     (case p of
        None \<Rightarrow> Some (- 1, set_err SystemError rt)
      | Some a \<Rightarrow>
          (case objs rt a of
             None \<Rightarrow> None
           | Some (PyLongV n) \<Rightarrow>
               if - (2 ^ 63) \<le> n \<and> n < 2 ^ 63 then Some (word_of_int n, rt)
               else Some (- 1, set_err OverflowError rt)
           | Some _ \<Rightarrow> Some (- 1, set_err TypeError rt)))"

text \<open>
  Modelled from the spec: \<open>PyFloat_AsDouble\<close>, the stored double of a float object. For another object the
  runtime tries \<open>__float__\<close>: an integer converts to the nearest double, or fails with
  \<open>OverflowError\<close> when it has none; the fragment's other objects fail with \<open>TypeError\<close>,
  as does the null pointer, which the function checks for. The failure value is -1.0.
  \<open>py_to_double\<close> calls it on float objects only.
\<close>

definition neg_one_double :: double where
  "neg_one_double = 0xBFF0000000000000"

definition PyFloat_AsDouble :: "PyObject_ptr \<Rightarrow> runtime \<Rightarrow> (double \<times> runtime) option" where
  "PyFloat_AsDouble p rt =
     (case p of
        None \<Rightarrow> Some (neg_one_double, set_err TypeError rt)
      | Some a \<Rightarrow>
          (case objs rt a of
             None \<Rightarrow> None
           | Some (PyFloatV d) \<Rightarrow> Some (d, rt)
           | Some (PyLongV n) \<Rightarrow>
               if int_fits_double n then Some (int_to_double n, rt)
               else Some (neg_one_double, set_err OverflowError rt)
           | Some _ \<Rightarrow> Some (neg_one_double, set_err TypeError rt)))"

text \<open>
  Modelled from the spec: \<open>PyUnicode_AsUTF8\<close>, a pointer to the string object's UTF-8 bytes (a borrowed view into
  the object), or the null pointer with \<open>TypeError\<close> for an object that is not a string.
\<close>

definition PyUnicode_AsUTF8 :: "PyObject_ptr \<Rightarrow> runtime \<Rightarrow> (c_string option \<times> runtime) option" where
  "PyUnicode_AsUTF8 p rt =
     (case deref p rt of
        None \<Rightarrow> None
      | Some (PyUnicodeV s) \<Rightarrow> Some (Some s, rt)
      | Some _ \<Rightarrow> Some (None, set_err TypeError rt))"

text \<open>
  Modelled from the spec: \<open>PyObject_IsTrue\<close>, 1 or 0 for the object's truth value, \<open>-1\<close> with the raised exception
  when the truth test itself fails. A float is false when it is plus or minus zero.
\<close>

definition PyObject_IsTrue :: "PyObject_ptr \<Rightarrow> runtime \<Rightarrow> (int \<times> runtime) option" where
  "PyObject_IsTrue p rt =
     (case deref p rt of
        None \<Rightarrow> None
      | Some (PyLongV n) \<Rightarrow> Some (if n \<noteq> 0 then 1 else 0, rt)
      | Some (PyFloatV d) \<Rightarrow> Some (if d AND 0x7FFFFFFFFFFFFFFF \<noteq> 0 then 1 else 0, rt)
      | Some (PyUnicodeV s) \<Rightarrow> Some (if s \<noteq> [] then 1 else 0, rt)
      | Some PyNoneV \<Rightarrow> Some (0, rt)
      | Some (PyByteArrayV bs) \<Rightarrow> Some (if bs \<noteq> [] then 1 else 0, rt)
      | Some (PyInstanceV (Inr b)) \<Rightarrow> Some (if b then 1 else 0, rt)
      | Some (PyInstanceV (Inl e)) \<Rightarrow> Some (- 1, set_err e rt))"

text \<open>
  Modelled from the spec: the allocation of a new object by the runtime. It gives the
  next free address, with reference count one (the new owned reference the caller gets),
  or the null pointer with \<open>MemoryError\<close> when the heap is exhausted.
\<close>

definition py_alloc :: "py_value \<Rightarrow> runtime \<Rightarrow> PyObject_ptr \<times> runtime" where
  "py_alloc v rt =
     (if next_addr rt < mem_limit rt then
        (Some (next_addr rt),
         rt\<lparr>refcnt := (refcnt rt)(next_addr rt := 1),
            objs := (objs rt)(next_addr rt \<mapsto> v),
            exports := (exports rt)(next_addr rt := 0),
            next_addr := Suc (next_addr rt)\<rparr>)
      else (None, set_err MemoryError rt))"

text \<open>
  Modelled from the spec: \<open>PyLong_FromLongLong\<close> and \<open>PyFloat_FromDouble\<close>, a new integer
  or float object holding the value given. (The runtime keeps the integers from -5 to 256
  as shared objects, which it returns with one more reference instead of allocating; they
  are not part of the fragment.)
\<close>

definition PyLong_FromLongLong :: "long_long \<Rightarrow> runtime \<Rightarrow> PyObject_ptr \<times> runtime" where
  "PyLong_FromLongLong v rt = py_alloc (PyLongV (sint v)) rt"

definition PyFloat_FromDouble :: "double \<Rightarrow> runtime \<Rightarrow> PyObject_ptr \<times> runtime" where
  "PyFloat_FromDouble d rt = py_alloc (PyFloatV d) rt"

text \<open>Well-formed UTF-8 (RFC 3629), on the byte values of a string.\<close>

definition utf8_cont :: "nat \<Rightarrow> bool" where
  "utf8_cont b = (0x80 \<le> b \<and> b \<le> 0xBF)"

fun utf8_valid :: "nat list \<Rightarrow> bool" where
  "utf8_valid [] = True"
| "utf8_valid (b # bs) =
     (if b < 0x80 then utf8_valid bs
      else if 0xC2 \<le> b \<and> b \<le> 0xDF then
        (case bs of c1 # r \<Rightarrow> utf8_cont c1 \<and> utf8_valid r | _ \<Rightarrow> False)
      else if 0xE0 \<le> b \<and> b \<le> 0xEF then
        (case bs of c1 # c2 # r \<Rightarrow>
           (if b = 0xE0 then 0xA0 \<le> c1 \<and> c1 \<le> 0xBF
            else if b = 0xED then 0x80 \<le> c1 \<and> c1 \<le> 0x9F
            else utf8_cont c1)
           \<and> utf8_cont c2 \<and> utf8_valid r
         | _ \<Rightarrow> False)
      else if 0xF0 \<le> b \<and> b \<le> 0xF4 then
        (case bs of c1 # c2 # c3 # r \<Rightarrow>
           (if b = 0xF0 then 0x90 \<le> c1 \<and> c1 \<le> 0xBF
            else if b = 0xF4 then 0x80 \<le> c1 \<and> c1 \<le> 0x8F
            else utf8_cont c1)
           \<and> utf8_cont c2 \<and> utf8_cont c3 \<and> utf8_valid r
         | _ \<Rightarrow> False)
      else False)"

text \<open>
  Modelled from the spec: \<open>PyUnicode_FromString\<close>, a new string object decoded from UTF-8 bytes; the null pointer
  with \<open>UnicodeDecodeError\<close> when the bytes are not well-formed UTF-8.
\<close>

definition PyUnicode_FromString :: "c_string \<Rightarrow> runtime \<Rightarrow> PyObject_ptr \<times> runtime" where
  "PyUnicode_FromString s rt =
     (if utf8_valid (map of_char s) then py_alloc (PyUnicodeV s) rt
      else (None, set_err UnicodeDecodeError rt))"

subsection \<open>The converters of raii\_wrapper.h\<close>

definition py_to_long :: "PyObject_ptr \<Rightarrow> runtime \<Rightarrow> (long_long \<times> runtime) option" where
  "py_to_long obj rt = PyLong_AsLongLong obj rt"

definition py_to_double :: "PyObject_ptr \<Rightarrow> runtime \<Rightarrow> (double \<times> runtime) option" where
  "py_to_double obj rt =
     (case PyFloat_Check obj rt of
        None \<Rightarrow> None
      | Some True \<Rightarrow> PyFloat_AsDouble obj rt
      | Some False \<Rightarrow>
          (case PyLong_Check obj rt of
             None \<Rightarrow> None
           | Some True \<Rightarrow>
               map_option (\<lambda>(v, rt'). (ll_to_double v, rt')) (PyLong_AsLongLong obj rt)
           | Some False \<Rightarrow> Some (0, rt)))"

definition py_to_string :: "PyObject_ptr \<Rightarrow> runtime \<Rightarrow> (c_string option \<times> runtime) option" where
  "py_to_string obj rt = PyUnicode_AsUTF8 obj rt"

definition py_to_bool :: "PyObject_ptr \<Rightarrow> runtime \<Rightarrow> (bool \<times> runtime) option" where
  "py_to_bool obj rt = map_option (\<lambda>(r, rt'). (r \<noteq> 0, rt')) (PyObject_IsTrue obj rt)"

definition long_to_py :: "long_long \<Rightarrow> runtime \<Rightarrow> PyObject_ptr \<times> runtime" where
  "long_to_py val rt = PyLong_FromLongLong val rt"

definition double_to_py :: "double \<Rightarrow> runtime \<Rightarrow> PyObject_ptr \<times> runtime" where
  "double_to_py val rt = PyFloat_FromDouble val rt"

definition string_to_py :: "c_string \<Rightarrow> runtime \<Rightarrow> PyObject_ptr \<times> runtime" where
  "string_to_py val rt = PyUnicode_FromString val rt"

section \<open>NumpyBuffer\<close>

text \<open>
  The buffer descriptor \<open>Py_buffer\<close> of Python.h. Pointers into the exporter's memory are
  modelled by what they point to: \<open>buf\<close> by the exporter whose storage it addresses,
  \<open>format\<close>, \<open>shape\<close> and \<open>strides\<close> by their contents (\<open>None\<close> is a null pointer).
\<close>

record Py_buffer =
  buf :: PyObject_ptr
  obj :: PyObject_ptr
  len :: int
  itemsize :: int
  readonly :: int
  ndim :: int
  format :: "c_string option"
  shape :: "int list option"
  strides :: "int list option"

text \<open>
  Modelled from the spec: the runtime's buffer protocol, \<open>PyObject_GetBuffer\<close> and
  \<open>PyBuffer_Release\<close> (Python.h). A request on an object that exports a buffer fills the
  descriptor, takes a new reference to the exporter in \<open>obj\<close> and counts one more
  outstanding export; the result is 0. A request on any other object fails with \<open>-1\<close> and
  \<open>TypeError\<close> and leaves the descriptor alone. The release does nothing when \<open>obj\<close> is
  null; otherwise it gives the export back, clears \<open>obj\<close> and drops the reference. The
  flags of the request (\<open>PyBUF_STRIDES | PyBUF_FORMAT\<close>) are fixed in the source and
  ask for format, shape and strides; a byte array serves them.
\<close>

definition exports_buffer :: "py_value \<Rightarrow> bool" where
  "exports_buffer v = (case v of PyByteArrayV bs \<Rightarrow> True | _ \<Rightarrow> False)"

definition PyObject_GetBuffer ::
  "PyObject_ptr \<Rightarrow> Py_buffer \<Rightarrow> runtime \<Rightarrow> (int \<times> Py_buffer \<times> runtime) option" where
  "PyObject_GetBuffer exporter v rt =
     (case exporter of
        None \<Rightarrow> None
      | Some a \<Rightarrow>
          (case objs rt a of
             None \<Rightarrow> None
           | Some (PyByteArrayV bs) \<Rightarrow>
               Some (0,
                 \<lparr>buf = Some a, obj = Some a, len = int (length bs), itemsize = 1,
                  readonly = 0, ndim = 1, format = Some ''B'',
                  shape = Some [int (length bs)], strides = Some [1]\<rparr>,
                 rt\<lparr>refcnt := (refcnt rt)(a := refcnt rt a + 1),
                    exports := (exports rt)(a := exports rt a + 1)\<rparr>)
           | Some _ \<Rightarrow> Some (- 1, v, set_err TypeError rt)))"

text \<open>
  Modelled from the spec: \<open>PyBuffer_Release\<close>, as described with \<open>PyObject_GetBuffer\<close>
  above.
\<close>

definition PyBuffer_Release :: "Py_buffer \<Rightarrow> runtime \<Rightarrow> Py_buffer \<times> runtime" where
  "PyBuffer_Release v rt =
     (case obj v of
        None \<Rightarrow> (v, rt)
      | Some a \<Rightarrow>
          (v\<lparr>obj := None\<rparr>,
           rt\<lparr>refcnt := (refcnt rt)(a := refcnt rt a - 1),
              exports := (exports rt)(a := exports rt a - 1)\<rparr>))"

record NumpyBuffer =
  view :: Py_buffer
  valid :: bool

text \<open>
  The constructors leave every field of \<open>view_\<close> but \<open>obj\<close> uninitialised; \<open>uninit\<close> is
  whatever the memory held.
\<close>

definition NumpyBuffer_default :: "Py_buffer \<Rightarrow> NumpyBuffer" where
  "NumpyBuffer_default uninit = \<lparr>view = uninit\<lparr>obj := None\<rparr>, valid = False\<rparr>"

definition NumpyBuffer_ctor ::
  "Py_buffer \<Rightarrow> PyObject_ptr \<Rightarrow> runtime \<Rightarrow> (NumpyBuffer \<times> runtime) option" where
  "NumpyBuffer_ctor uninit arr rt =
     (case PyObject_GetBuffer arr (uninit\<lparr>obj := None\<rparr>) rt of
        None \<Rightarrow> None
      | Some (res, v, rt') \<Rightarrow> Some (\<lparr>view = v, valid = (res = 0)\<rparr>, rt'))"

text \<open>\<open>~NumpyBuffer()\<close>.\<close>

definition NumpyBuffer_dtor :: "NumpyBuffer \<Rightarrow> runtime \<Rightarrow> runtime" where
  "NumpyBuffer_dtor b rt = (if valid b then snd (PyBuffer_Release (view b) rt) else rt)"

text \<open>The move constructor: the new buffer and what is left of \<open>other\<close>.\<close>

definition NumpyBuffer_move :: "NumpyBuffer \<Rightarrow> NumpyBuffer \<times> NumpyBuffer" where
  "NumpyBuffer_move other =
     (\<lparr>view = view other, valid = valid other\<rparr>,
      other\<lparr>valid := False, view := (view other)\<lparr>obj := None\<rparr>\<rparr>)"

text \<open>
  Move assignment between two distinct buffers (the branch \<open>this != &other\<close>): the new
  \<open>*this\<close>, what is left of \<open>other\<close>, and the runtime.
\<close>

definition NumpyBuffer_move_assign ::
  "NumpyBuffer \<Rightarrow> NumpyBuffer \<Rightarrow> runtime \<Rightarrow> NumpyBuffer \<times> NumpyBuffer \<times> runtime" where
  "NumpyBuffer_move_assign this other rt =
     (this\<lparr>view := view other, valid := valid other\<rparr>,
      other\<lparr>valid := False, view := (view other)\<lparr>obj := None\<rparr>\<rparr>,
      if valid this then snd (PyBuffer_Release (view this) rt) else rt)"

definition NumpyBuffer_valid :: "NumpyBuffer \<Rightarrow> bool" where
  "NumpyBuffer_valid b = valid b"

definition NumpyBuffer_data :: "NumpyBuffer \<Rightarrow> PyObject_ptr" where
  "NumpyBuffer_data b = buf (view b)"

definition NumpyBuffer_size :: "NumpyBuffer \<Rightarrow> int" where
  "NumpyBuffer_size b = len (view b)"

definition NumpyBuffer_itemsize :: "NumpyBuffer \<Rightarrow> int" where
  "NumpyBuffer_itemsize b = itemsize (view b)"

definition NumpyBuffer_ndim :: "NumpyBuffer \<Rightarrow> int" where
  "NumpyBuffer_ndim b = ndim (view b)"

definition NumpyBuffer_shape :: "NumpyBuffer \<Rightarrow> int list option" where
  "NumpyBuffer_shape b = shape (view b)"

definition NumpyBuffer_strides :: "NumpyBuffer \<Rightarrow> int list option" where
  "NumpyBuffer_strides b = strides (view b)"

definition NumpyBuffer_format :: "NumpyBuffer \<Rightarrow> c_string option" where
  "NumpyBuffer_format b = format (view b)"

definition NumpyBuffer_readonly :: "NumpyBuffer \<Rightarrow> bool" where
  "NumpyBuffer_readonly b = (readonly (view b) \<noteq> 0)"

subsection \<open>A program's buffers over time\<close>

text \<open>
  The buffers a program creates, numbered in order of construction, as for handles above.
  A buffer cannot be copied (the copy constructor and copy assignment are deleted), so the
  operations are the two constructors, move construction, move assignment
  (\<open>BufMoveAssign i j\<close> is \<open>buffer_i = std::move(buffer_j)\<close>) and destruction.
\<close>

datatype buffer_op =
    BufDefault Py_buffer
  | BufAcquire Py_buffer PyObject_ptr
  | BufMove nat
  | BufMoveAssign nat nat
  | BufDestroy nat

record buffer_world =
  buffers :: "NumpyBuffer option list"
  brt :: runtime

fun buffer_step :: "buffer_op \<Rightarrow> buffer_world \<Rightarrow> buffer_world option" where
  "buffer_step (BufDefault uninit) w =
     Some (w\<lparr>buffers := buffers w @ [Some (NumpyBuffer_default uninit)]\<rparr>)"
| "buffer_step (BufAcquire uninit arr) w =
     (case NumpyBuffer_ctor uninit arr (brt w) of
        None \<Rightarrow> None
      | Some (b, r) \<Rightarrow> Some \<lparr>buffers = buffers w @ [Some b], brt = r\<rparr>)"
| "buffer_step (BufMove i) w =
     (case live (buffers w) i of
        None \<Rightarrow> None
      | Some b \<Rightarrow>
          Some (w\<lparr>buffers := (buffers w)[i := Some (snd (NumpyBuffer_move b))]
                                 @ [Some (fst (NumpyBuffer_move b))]\<rparr>))"
| "buffer_step (BufMoveAssign i j) w =
     (case live (buffers w) i of
        None \<Rightarrow> None
      | Some this \<Rightarrow>
          (case live (buffers w) j of
             None \<Rightarrow> None
           | Some other \<Rightarrow>
               if i \<noteq> j then
                 (case NumpyBuffer_move_assign this other (brt w) of
                    (this', other', r) \<Rightarrow>
                      Some \<lparr>buffers = (buffers w)[i := Some this', j := Some other'], brt = r\<rparr>)
               else Some w))"
| "buffer_step (BufDestroy i) w =
     (case live (buffers w) i of
        None \<Rightarrow> None
      | Some b \<Rightarrow> Some \<lparr>buffers = (buffers w)[i := None], brt = NumpyBuffer_dtor b (brt w)\<rparr>)"

fun buffer_run :: "buffer_op list \<Rightarrow> buffer_world \<Rightarrow> buffer_world option" where
  "buffer_run [] w = Some w"
| "buffer_run (x # xs) w =
     (case buffer_step x w of None \<Rightarrow> None | Some w' \<Rightarrow> buffer_run xs w')"

text \<open>The live buffers that hold a view of the exporter at \<open>a\<close> and will release it.\<close>

definition views_of :: "NumpyBuffer option \<Rightarrow> addr \<Rightarrow> bool" where
  "views_of x a = (case x of None \<Rightarrow> False | Some b \<Rightarrow> valid b \<and> obj (view b) = Some a)"

definition view_count :: "NumpyBuffer option list \<Rightarrow> addr \<Rightarrow> int" where
  "view_count bs a = int (length (filter (\<lambda>x. views_of x a) bs))"

section \<open>GILGuard and GILRelease\<close>

text \<open>
  Modelled from the spec: the lock state of the calling thread, \<open>NotHeld\<close> or \<open>Held\<close>, and
  the runtime's four lock primitives (Python.h). \<open>PyGILState_Ensure\<close> takes the lock
  unless the thread already holds it and returns a token that says which;
  \<open>PyGILState_Release\<close> gives the lock back when the token says it was taken.
  \<open>PyEval_SaveThread\<close> gives the lock up and \<open>PyEval_RestoreThread\<close> takes it again. Misuse
  is not recovered from: releasing a lock that is not held is fatal, and taking the lock
  again through \<open>PyEval_RestoreThread\<close> while holding it deadlocks. What other threads do
  while the lock is not held is outside this state machine.
\<close>

datatype lock_state = NotHeld | Held

datatype PyGILState_STATE = PyGILState_LOCKED | PyGILState_UNLOCKED

datatype PyThreadState = ThisThread

datatype 'a lock_result = Done 'a | Fatal | Deadlock

definition lock_bind :: "'a lock_result \<Rightarrow> ('a \<Rightarrow> 'b lock_result) \<Rightarrow> 'b lock_result" where
  "lock_bind r k = (case r of Done x \<Rightarrow> k x | Fatal \<Rightarrow> Fatal | Deadlock \<Rightarrow> Deadlock)"

text \<open>Modelled from the spec: \<open>PyGILState_Ensure\<close> and \<open>PyGILState_Release\<close>.\<close>

definition PyGILState_Ensure :: "lock_state \<Rightarrow> (PyGILState_STATE \<times> lock_state) lock_result" where
  "PyGILState_Ensure l =
     (case l of
        NotHeld \<Rightarrow> Done (PyGILState_UNLOCKED, Held)
      | Held \<Rightarrow> Done (PyGILState_LOCKED, Held))"

definition PyGILState_Release :: "PyGILState_STATE \<Rightarrow> lock_state \<Rightarrow> lock_state lock_result" where
  "PyGILState_Release tok l =
     (case l of
        NotHeld \<Rightarrow> Fatal
      | Held \<Rightarrow>
          (case tok of PyGILState_UNLOCKED \<Rightarrow> Done NotHeld | PyGILState_LOCKED \<Rightarrow> Done Held))"

text \<open>Modelled from the spec: \<open>PyEval_SaveThread\<close> and \<open>PyEval_RestoreThread\<close>.\<close>

definition PyEval_SaveThread :: "lock_state \<Rightarrow> (PyThreadState \<times> lock_state) lock_result" where
  "PyEval_SaveThread l = (case l of Held \<Rightarrow> Done (ThisThread, NotHeld) | NotHeld \<Rightarrow> Fatal)"

definition PyEval_RestoreThread :: "PyThreadState \<Rightarrow> lock_state \<Rightarrow> lock_state lock_result" where
  "PyEval_RestoreThread t l = (case l of NotHeld \<Rightarrow> Done Held | Held \<Rightarrow> Deadlock)"

record GILGuard =
  state :: PyGILState_STATE

record GILRelease =
  save :: PyThreadState

definition GILGuard_ctor :: "lock_state \<Rightarrow> (GILGuard \<times> lock_state) lock_result" where
  "GILGuard_ctor l = lock_bind (PyGILState_Ensure l) (\<lambda>(tok, l'). Done (\<lparr>state = tok\<rparr>, l'))"

definition GILGuard_dtor :: "GILGuard \<Rightarrow> lock_state \<Rightarrow> lock_state lock_result" where
  "GILGuard_dtor g l = PyGILState_Release (state g) l"

definition GILRelease_ctor :: "lock_state \<Rightarrow> (GILRelease \<times> lock_state) lock_result" where
  "GILRelease_ctor l = lock_bind (PyEval_SaveThread l) (\<lambda>(t, l'). Done (\<lparr>save = t\<rparr>, l'))"

definition GILRelease_dtor :: "GILRelease \<Rightarrow> lock_state \<Rightarrow> lock_state lock_result" where
  "GILRelease_dtor g l = PyEval_RestoreThread (save g) l"

text \<open>
  \<open>n\<close> guards nested on one thread: each scope constructs a \<open>GILGuard\<close>, runs the scopes
  nested in it, and destroys the guard on the way out.
\<close>

fun nested_guards :: "nat \<Rightarrow> lock_state \<Rightarrow> lock_state lock_result" where
  "nested_guards 0 l = Done l"
| "nested_guards (Suc n) l =
     lock_bind (GILGuard_ctor l)
       (\<lambda>(g, l'). lock_bind (nested_guards n l') (\<lambda>l''. GILGuard_dtor g l''))"

text \<open>The double 3.14: sign 0, exponent 1024, fraction \<open>0x91EB851EB851F\<close>.\<close>

definition double_3_14 :: double where
  "double_3_14 = 0x40091EB851EB851F"

text \<open>A small runtime state used to run the definitions on concrete inputs.\<close>

definition rt_example :: runtime where
  "rt_example =
     \<lparr>refcnt = (\<lambda>_. 0)(1 := 2, 2 := 1, 3 := 1, 4 := 1, 5 := 1),
      objs = [1 \<mapsto> PyLongV 42, 2 \<mapsto> PyUnicodeV ''abc'', 3 \<mapsto> PyInstanceV (Inl ValueError),
              4 \<mapsto> PyByteArrayV [1, 2, 3], 5 \<mapsto> PyNoneV],
      exports = (\<lambda>_. 0),
      err = None,
      next_addr = 6,
      mem_limit = 8\<rparr>"

text \<open>A runtime state whose one object is the integer \<open>2 ^ 63\<close>, one past the largest \<open>long long\<close>.\<close>

definition rt_big_int :: runtime where
  "rt_big_int =
     \<lparr>refcnt = (\<lambda>_. 0)(1 := 1),
      objs = [1 \<mapsto> PyLongV (2 ^ 63)],
      exports = (\<lambda>_. 0),
      err = None,
      next_addr = 2,
      mem_limit = 8\<rparr>"


text \<open>A program that holds no buffer yet, and some uninitialised descriptor.\<close>

definition bw_example :: buffer_world where
  "bw_example = \<lparr>buffers = [], brt = rt_example\<rparr>"

definition garbage :: Py_buffer where
  "garbage = \<lparr>buf = Some 99, obj = Some 77, len = - 5, itemsize = 3, readonly = 1, ndim = 9,
              format = None, shape = None, strides = None\<rparr>"

section \<open>Properties\<close>

subsection \<open>ScopeGuard\<close>

lemma ScopeGuard_dtor_returns:
  "ScopeGuard_dtor g s = Returns (if active g then state_of (cleanup g s) else s)"
  by (simp add: ScopeGuard_dtor_def try_catch_all_def state_of_def split: outcome.splits)

lemma filter_eq_upt: "i < n \<Longrightarrow> filter (\<lambda>j. j = i) [0..<n] = [i]"
  by (induction n) (auto simp: less_Suc_eq)

lemma active_ids_single:
  assumes "i < length gs" and "\<forall>j < length gs. is_active (gs ! j) \<longleftrightarrow> j = i"
  shows "active_ids gs = [i]"
proof -
  have "filter (\<lambda>j. is_active (gs ! j)) [0..<length gs] = filter (\<lambda>j. j = i) [0..<length gs]"
    using assms by (intro filter_cong) auto
  then show ?thesis using assms(1) by (simp add: active_ids_def filter_eq_upt)
qed

lemma active_ids_none:
  assumes "\<forall>j < length gs. \<not> is_active (gs ! j)"
  shows "active_ids gs = []"
  using assms by (simp add: active_ids_def)

lemma is_active_simps:
  "is_active None = False" "is_active (Some g) = active g"
  by (simp_all add: is_active_def)

lemma sg_step_Move_inv:
  assumes "sg_inv f s0 w n ob" and "sg_step (Move i) w = Some w'"
  shows "sg_inv f s0 w' (Suc n) (spec_step (Move i) n ob)"
proof -
  from assms(2) obtain g where g: "i < length (guards w)" "guards w ! i = Some g"
    and w': "w' = w\<lparr>guards := (guards w)[i := Some (g\<lparr>active := False\<rparr>)] @ [Some \<lparr>cleanup = cleanup g, active = active g\<rparr>]\<rparr>"
    by (auto simp: live_def ScopeGuard_move_def split: option.splits if_splits)
  show ?thesis
    using assms(1) g unfolding w'
    by (cases ob) (auto simp: sg_inv_def is_active_simps nth_list_update nth_append less_Suc_eq)
qed

lemma sg_step_Dismiss_inv:
  assumes "sg_inv f s0 w n ob" and "sg_step (Dismiss i) w = Some w'"
  shows "sg_inv f s0 w' n (spec_step (Dismiss i) n ob)"
proof -
  from assms(2) obtain g where g: "i < length (guards w)" "guards w ! i = Some g"
    and w': "w' = w\<lparr>guards := (guards w)[i := Some (g\<lparr>active := False\<rparr>)]\<rparr>"
    by (auto simp: live_def ScopeGuard_dismiss_def split: option.splits if_splits)
  show ?thesis
    using assms(1) g unfolding w'
    by (cases ob) (auto simp: sg_inv_def is_active_simps nth_list_update)
qed

lemma sg_step_Destroy_inv:
  assumes "sg_inv f s0 w n ob" and "sg_step (Destroy i) w = Some w'"
  shows "sg_inv f s0 w' n (spec_step (Destroy i) n ob)"
proof -
  from assms(2) obtain g where g: "i < length (guards w)" "guards w ! i = Some g"
    and w': "w' = \<lparr>guards = (guards w)[i := None],
                   st = (if active g then state_of (cleanup g (st w)) else st w)\<rparr>"
    by (auto simp: live_def ScopeGuard_dtor_returns split: option.splits if_splits)
  show ?thesis
    using assms(1) g unfolding w'
    by (cases ob) (auto simp: sg_inv_def is_active_simps nth_list_update)
qed

lemma sg_step_inv:
  assumes "sg_inv f s0 w n ob" and "sg_step x w = Some w'"
  shows "sg_inv f s0 w' (constructed x n) (spec_step x n ob)"
  using assms
  by (cases x) (simp_all only: constructed.simps sg_step_Move_inv sg_step_Dismiss_inv sg_step_Destroy_inv)

lemma sg_run_inv:
  "sg_inv f s0 w n ob \<Longrightarrow> sg_run ops w = Some w' \<Longrightarrow>
     \<exists>n'. sg_inv f s0 w' n' (spec_run ops n ob)"
proof (induction ops arbitrary: w n ob)
  case Nil
  then show ?case by auto
next
  case (Cons x xs)
  from Cons.prems(2) obtain w1 where w1: "sg_step x w = Some w1" "sg_run xs w1 = Some w'"
    by (auto split: option.splits)
  from sg_step_inv [OF Cons.prems(1) w1(1)] Cons.IH w1(2)
  show ?case by simp
qed

lemma sg_init_inv: "sg_inv f s0 (sg_init f s0) 1 (Pending 0)"
  by (simp add: sg_inv_def sg_init_def make_guard_def ScopeGuard_ctor_def is_active_simps)

lemma sg_inv_Pending:
  "sg_inv f s0 w n (Pending i) \<Longrightarrow> st w = s0 \<and> active_ids (guards w) = [i]"
  by (simp add: sg_inv_def active_ids_single)

lemma sg_inv_Discharged:
  "sg_inv f s0 w n Discharged \<Longrightarrow> st w = state_of (f s0) \<and> active_ids (guards w) = []"
  by (simp add: sg_inv_def active_ids_none)

lemma sg_inv_Dismissed:
  "sg_inv f s0 w n Dismissed \<Longrightarrow> st w = s0 \<and> active_ids (guards w) = []"
  by (simp add: sg_inv_def active_ids_none)

text \<open>
  C3. The destructor of a guard always returns: when the cleanup action throws, the
  exception is caught inside the destructor and dropped. So leaving the guard's scope
  never ends in \<open>std::terminate\<close>, and when the scope is left because an exception \<open>e0\<close>
  is propagating, it is still \<open>e0\<close> that propagates afterwards.
\<close>

theorem ScopeGuard_dtor_swallows:
  "ScopeGuard_dtor g s = Returns (if active g then state_of (cleanup g s) else s)
   \<and> (\<forall>e s'. ScopeGuard_dtor g s \<noteq> Throws e s')
   \<and> leave_scope g (Returns s)
       = Some (Returns (if active g then state_of (cleanup g s) else s))
   \<and> leave_scope g (Throws e0 s)
       = Some (Throws e0 (if active g then state_of (cleanup g s) else s))"
  by (simp add: leave_scope_def ScopeGuard_dtor_def try_catch_all_def state_of_def
      split: outcome.splits)

theorem ScopeGuard_dtor_swallows_witness:
  "cleanup (make_guard counting_thrower) 0 = Throws (Exception 7) 1
   \<and> ScopeGuard_dtor (make_guard counting_thrower) 0 = Returns 1
   \<and> leave_scope (make_guard counting_thrower) (Throws (Exception 3) 0)
       = Some (Throws (Exception 3) 1)"
  using ScopeGuard_dtor_swallows [of "make_guard counting_thrower" 0 "Exception 3"]
  by (simp add: make_guard_def ScopeGuard_ctor_def counting_thrower_def state_of_def)

text \<open>
  C2. Take any cleanup action \<open>f\<close>, counted, a guard made from it in state \<open>s0\<close>, and any
  sequence of moves, \<open>dismiss()\<close> calls and destructions of the guards that come from it.
  The program follows the obligation of the contract: while the obligation is pending
  with guard \<open>i\<close> the action has run zero times and \<open>i\<close> is the only guard that would run
  it; once the guard holding it is destroyed the action has run exactly once, leaving the
  state one run of \<open>f\<close> leaves, and no guard is left to run it again; once it is dismissed
  the action has run zero times and never will. \<open>dismiss()\<close> is idempotent, a dismissed
  guard and a moved-from guard do nothing when destroyed, and the guard moved into does
  what the source would have done.
\<close>

theorem ScopeGuard_cleanup_exactly_once:
  "sg_run ops (sg_init (counted f) (0, s0)) = Some w \<Longrightarrow>
     (case spec_run ops 1 (Pending 0) of
        Pending i \<Rightarrow> st w = (0, s0) \<and> active_ids (guards w) = [i]
      | Discharged \<Rightarrow> st w = (1, state_of (f s0)) \<and> active_ids (guards w) = []
      | Dismissed \<Rightarrow> st w = (0, s0) \<and> active_ids (guards w) = [])
     \<and> ScopeGuard_dismiss (ScopeGuard_dismiss g) = ScopeGuard_dismiss g
     \<and> ScopeGuard_dtor (ScopeGuard_dismiss g) s = Returns s
     \<and> ScopeGuard_dtor (snd (ScopeGuard_move g)) s = Returns s
     \<and> ScopeGuard_dtor (fst (ScopeGuard_move g)) s = ScopeGuard_dtor g s"
proof -
  assume run: "sg_run ops (sg_init (counted f) (0, s0)) = Some w"
  from sg_run_inv [OF sg_init_inv run] obtain n where
    inv: "sg_inv (counted f) (0, s0) w n (spec_run ops 1 (Pending 0))" by blast
  have once: "state_of (counted f (0, s0)) = (1, state_of (f s0))"
    by (simp add: counted_def state_of_def split: outcome.splits)
  have first: "case spec_run ops 1 (Pending 0) of
        Pending i \<Rightarrow> st w = (0, s0) \<and> active_ids (guards w) = [i]
      | Discharged \<Rightarrow> st w = (1, state_of (f s0)) \<and> active_ids (guards w) = []
      | Dismissed \<Rightarrow> st w = (0, s0) \<and> active_ids (guards w) = []"
    using inv sg_inv_Pending sg_inv_Discharged sg_inv_Dismissed once
    by (cases "spec_run ops 1 (Pending 0)") fastforce+
  show ?thesis
    using first
    by (simp add: ScopeGuard_dismiss_def ScopeGuard_dtor_def ScopeGuard_move_def)
qed

theorem ScopeGuard_cleanup_exactly_once_witness:
  "map_option st (sg_run [Move 0, Destroy 0, Move 1, Destroy 1, Destroy 2]
                   (sg_init (counted counting_thrower) (0, 5))) = Some (1, 6)
   \<and> spec_run [Move 0, Destroy 0, Move 1, Destroy 1, Destroy 2] 1 (Pending 0) = Discharged
   \<and> map_option st (sg_run [Move 0, Dismiss 1, Dismiss 1, Destroy 1, Destroy 0]
                   (sg_init (counted counting_thrower) (0, 5))) = Some (0, 5)
   \<and> spec_run [Move 0, Dismiss 1, Dismiss 1, Destroy 1, Destroy 0] 1 (Pending 0) = Dismissed"
proof -
  let ?w0 = "sg_init (counted counting_thrower) (0, 5)"
  have r1: "sg_run [Move 0, Destroy 0, Move 1, Destroy 1, Destroy 2] ?w0
              = Some \<lparr>guards = [None, None, None], st = (1, 6)\<rparr>"
    by (simp add: sg_init_def make_guard_def ScopeGuard_ctor_def live_def ScopeGuard_move_def
        ScopeGuard_dtor_def try_catch_all_def counting_thrower_def counted_def
        eval_nat_numeral)
  have r2: "sg_run [Move 0, Dismiss 1, Dismiss 1, Destroy 1, Destroy 0] ?w0
              = Some \<lparr>guards = [None, None], st = (0, 5)\<rparr>"
    by (simp add: sg_init_def make_guard_def ScopeGuard_ctor_def live_def ScopeGuard_move_def
        ScopeGuard_dismiss_def ScopeGuard_dtor_def try_catch_all_def counting_thrower_def
        counted_def eval_nat_numeral)
  show ?thesis
    unfolding r1 r2
    using ScopeGuard_cleanup_exactly_once [OF r1] ScopeGuard_cleanup_exactly_once [OF r2]
    by (simp add: eval_nat_numeral)
qed

subsection \<open>PyObjectPtr and the converters\<close>



subsection \<open>PyObjectPtr in a program\<close>



lemma count_update:
  "i < length xs \<Longrightarrow>
     int (length (filter P (xs[i := v])))
       = int (length (filter P xs)) - (if P (xs ! i) then 1 else 0) + (if P v then 1 else 0)"
proof (induction xs arbitrary: i)
  case Nil
  then show ?case by simp
next
  case (Cons y ys)
  show ?case
  proof (cases i)
    case 0
    then show ?thesis by simp
  next
    case (Suc k)
    with Cons.prems have "k < length ys" by simp
    from Cons.IH [OF this] Suc show ?thesis by (auto split: if_splits)
  qed
qed












text \<open>
  C10. \<open>reset(p)\<close> decrements the pointer held before, when it is not null, and then stores
  \<open>p\<close>; it never compares \<open>p\<close> with the pointer held. So \<open>get()\<close> is \<open>p\<close> afterwards, every
  other count is untouched, and when \<open>p\<close> is the pointer already held the object still
  loses one count while the handle goes on holding it.
\<close>

theorem PyObjectPtr_reset_unconditional_decref:
  "PyObjectPtr_get (fst (PyObjectPtr_reset h p rt)) = p
   \<and> snd (PyObjectPtr_reset h p rt) = Py_XDECREF (PyObjectPtr_get h) rt
   \<and> (PyObjectPtr_get h = None \<longrightarrow> snd (PyObjectPtr_reset h p rt) = rt)
   \<and> (\<forall>a. PyObjectPtr_get h = Some a \<longrightarrow>
         refcnt (snd (PyObjectPtr_reset h p rt)) a = refcnt rt a - 1
         \<and> (\<forall>b. b \<noteq> a \<longrightarrow> refcnt (snd (PyObjectPtr_reset h p rt)) b = refcnt rt b))
   \<and> (\<forall>a. PyObjectPtr_get h = Some a \<and> p = Some a \<longrightarrow>
         PyObjectPtr_get (fst (PyObjectPtr_reset h p rt)) = PyObjectPtr_get h
         \<and> refcnt (snd (PyObjectPtr_reset h p rt)) a = refcnt rt a - 1)"
  by (simp add: PyObjectPtr_reset_def PyObjectPtr_get_def Py_XDECREF_def)

theorem PyObjectPtr_reset_unconditional_decref_witness:
  "PyObjectPtr_get (fst (PyObjectPtr_reset \<lparr>ptr = Some 1\<rparr> (Some 1) rt_example)) = Some 1
   \<and> refcnt rt_example 1 = 2
   \<and> refcnt (snd (PyObjectPtr_reset \<lparr>ptr = Some 1\<rparr> (Some 1) rt_example)) 1 = 1
   \<and> refcnt (snd (PyObjectPtr_reset \<lparr>ptr = Some 1\<rparr> (Some 1) rt_example)) 2 = 1"
  using PyObjectPtr_reset_unconditional_decref [of "\<lparr>ptr = Some 1\<rparr>" "Some 1" rt_example]
  by (simp add: PyObjectPtr_get_def PyObjectPtr_reset_def Py_XDECREF_def rt_example_def)

subsection \<open>The converters\<close>

lemma py_alloc_success:
  "next_addr rt < mem_limit rt \<Longrightarrow>
     py_alloc v rt =
       (Some (next_addr rt),
        rt\<lparr>refcnt := (refcnt rt)(next_addr rt := 1),
           objs := (objs rt)(next_addr rt \<mapsto> v),
           exports := (exports rt)(next_addr rt := 0),
           next_addr := Suc (next_addr rt)\<rparr>)"
  by (simp add: py_alloc_def)

lemma deref_py_alloc:
  "next_addr rt < mem_limit rt \<Longrightarrow> deref (fst (py_alloc v rt)) (snd (py_alloc v rt)) = Some v"
  by (simp add: py_alloc_def deref_def)

lemma utf8_abc: "utf8_valid (map of_char ''abc'')"
  by simp

lemma py_to_double_float:
  "deref p rt = Some (PyFloatV d) \<Longrightarrow> py_to_double p rt = Some (d, rt)"
  by (cases p) (simp_all add: py_to_double_def PyFloat_Check_def PyFloat_AsDouble_def deref_def)

lemma py_to_long_long:
  "deref p rt = Some (PyLongV (sint v)) \<Longrightarrow> py_to_long p rt = Some (v, rt)"
  using sint_ge [of v] sint_lt [of v]
  by (cases p) (auto simp add: py_to_long_def PyLong_AsLongLong_def deref_def)

lemma py_to_string_unicode:
  "deref p rt = Some (PyUnicodeV s) \<Longrightarrow> py_to_string p rt = Some (Some s, rt)"
  by (simp add: py_to_string_def PyUnicode_AsUTF8_def)

text \<open>
  C5. Whenever the runtime can allocate the object, converting a double, a \<open>long long\<close> or a
  well-formed UTF-8 string to an object and back returns the value that went in; the
  witness runs the three round trips of the spec: 3.14, -7 and \<open>"abc"\<close>.
\<close>

theorem converters_round_trip:
  "next_addr rt < mem_limit rt \<Longrightarrow> utf8_valid (map of_char s) \<Longrightarrow>
     (case double_to_py d rt of
        (p, rt') \<Rightarrow> p \<noteq> None \<and> py_to_double p rt' = Some (d, rt'))
     \<and> (case long_to_py v rt of
        (p, rt') \<Rightarrow> p \<noteq> None \<and> py_to_long p rt' = Some (v, rt'))
     \<and> (case string_to_py s rt of
        (p, rt') \<Rightarrow> p \<noteq> None \<and> py_to_string p rt' = Some (Some s, rt'))"
proof -
  assume mem: "next_addr rt < mem_limit rt" and utf8: "utf8_valid (map of_char s)"
  have ok: "fst (py_alloc x rt) \<noteq> None" for x
    using mem by (simp add: py_alloc_def)
  have d: "py_to_double (fst (py_alloc (PyFloatV d) rt)) (snd (py_alloc (PyFloatV d) rt))
             = Some (d, snd (py_alloc (PyFloatV d) rt))"
    by (rule py_to_double_float) (rule deref_py_alloc [OF mem])
  have l: "py_to_long (fst (py_alloc (PyLongV (sint v)) rt)) (snd (py_alloc (PyLongV (sint v)) rt))
             = Some (v, snd (py_alloc (PyLongV (sint v)) rt))"
    by (rule py_to_long_long) (rule deref_py_alloc [OF mem])
  have u: "py_to_string (fst (py_alloc (PyUnicodeV s) rt)) (snd (py_alloc (PyUnicodeV s) rt))
             = Some (Some s, snd (py_alloc (PyUnicodeV s) rt))"
    by (rule py_to_string_unicode) (rule deref_py_alloc [OF mem])
  show ?thesis
    using ok d l u utf8
    by (simp add: double_to_py_def long_to_py_def string_to_py_def PyFloat_FromDouble_def
        PyLong_FromLongLong_def PyUnicode_FromString_def case_prod_beta)
qed

theorem converters_round_trip_witness:
  "(case double_to_py double_3_14 rt_example of
        (p, rt') \<Rightarrow> p = Some 6 \<and> py_to_double p rt' = Some (double_3_14, rt'))
     \<and> (case long_to_py (- 7) rt_example of
        (p, rt') \<Rightarrow> p = Some 6 \<and> py_to_long p rt' = Some (- 7, rt'))
     \<and> (case string_to_py ''abc'' rt_example of
        (p, rt') \<Rightarrow> p = Some 6 \<and> py_to_string p rt' = Some (Some ''abc'', rt'))"
proof -
  have mem: "next_addr rt_example < mem_limit rt_example"
    by (simp add: rt_example_def)
  have at: "next_addr rt_example = 6"
    by (simp add: rt_example_def)
  show ?thesis
    using converters_round_trip [OF mem utf8_abc, of double_3_14 "- 7"] mem at
    by (simp add: double_to_py_def long_to_py_def string_to_py_def PyFloat_FromDouble_def
        PyLong_FromLongLong_def PyUnicode_FromString_def py_alloc_def case_prod_beta)
qed

text \<open>
  C4, as the spec states it: on an object that is neither an integer nor a float both
  \<open>py_to_long\<close> and \<open>py_to_double\<close> return zero and leave the error state alone, and
  \<open>py_to_double\<close> widens an integer to floating point. The first holds for \<open>py_to_double\<close>
  only: \<open>py_to_long\<close> has no type test of its own, and on the string object \<open>'abc'\<close> it
  returns what \<open>PyLong_AsLongLong\<close> returns, the sentinel -1, with \<open>TypeError\<close> set. The
  second holds for integers that fit a \<open>long long\<close> only: \<open>py_to_double\<close> reads an integer
  through \<open>PyLong_AsLongLong\<close>, and on the integer \<open>2 ^ 63\<close> it returns -1.0, the failure
  sentinel cast to double, with \<open>OverflowError\<close> set, where the integer's double is
  \<open>0x43E0000000000000\<close>.
\<close>

theorem py_to_long_no_fallback_counterexample:
  "PyFloat_Check (Some 2) rt_example = Some False
   \<and> PyLong_Check (Some 2) rt_example = Some False
   \<and> py_to_long (Some 2) rt_example = Some (- 1, set_err TypeError rt_example)
   \<and> (- 1 :: long_long) \<noteq> 0
   \<and> err (set_err TypeError rt_example) \<noteq> err rt_example
   \<and> PyLong_Check (Some 1) rt_big_int = Some True
   \<and> deref (Some 1) rt_big_int = Some (PyLongV (2 ^ 63))
   \<and> py_to_double (Some 1) rt_big_int = Some (neg_one_double, set_err OverflowError rt_big_int)
   \<and> int_to_double (2 ^ 63) = 0x43E0000000000000
   \<and> neg_one_double \<noteq> int_to_double (2 ^ 63)
   \<and> err (set_err OverflowError rt_big_int) \<noteq> err rt_big_int"
proof -
  have str: "PyFloat_Check (Some 2) rt_example = Some False
     \<and> PyLong_Check (Some 2) rt_example = Some False
     \<and> py_to_long (Some 2) rt_example = Some (- 1, set_err TypeError rt_example)
     \<and> (- 1 :: long_long) \<noteq> 0
     \<and> err (set_err TypeError rt_example) \<noteq> err rt_example"
    by (simp add: py_to_long_def PyLong_AsLongLong_def PyFloat_Check_def PyLong_Check_def
        deref_def set_err_def rt_example_def)
  have minus_one: "ll_to_double (- 1) = neg_one_double"
    by (simp add: ll_to_double_def int_to_double_def round_mantissa_def neg_one_double_def)
  have big: "PyLong_Check (Some 1) rt_big_int = Some True
     \<and> deref (Some 1) rt_big_int = Some (PyLongV (2 ^ 63))
     \<and> py_to_double (Some 1) rt_big_int = Some (neg_one_double, set_err OverflowError rt_big_int)
     \<and> err (set_err OverflowError rt_big_int) \<noteq> err rt_big_int"
    using minus_one
    by (simp add: py_to_double_def PyLong_AsLongLong_def PyFloat_Check_def PyLong_Check_def
        deref_def set_err_def rt_big_int_def)
  have exact: "int_to_double (2 ^ 63) = 0x43E0000000000000"
    by (simp add: int_to_double_def round_mantissa_def Let_def)
  have differ: "neg_one_double \<noteq> int_to_double (2 ^ 63)"
    unfolding exact by (simp add: neg_one_double_def)
  show ?thesis
    using str big exact differ by blast
qed

text \<open>
  C4, amended. On an object that is neither an integer nor a float \<open>py_to_double\<close> returns
  zero and leaves the runtime state, its error indicator included, as it was. \<open>py_to_long\<close>
  has no fallback: on every input its result and the error state it leaves are those of
  \<open>PyLong_AsLongLong\<close>. On an integer object whose value fits a \<open>long long\<close>, \<open>py_to_double\<close>
  returns the nearest double of the integer, which is the \<open>long long\<close> converted to
  double, and leaves the runtime state as it was.
\<close>

theorem py_to_double_lenient:
  "(PyFloat_Check p rt = Some False \<and> PyLong_Check p rt = Some False \<longrightarrow>
      py_to_double p rt = Some (0, rt))
   \<and> py_to_long p rt = PyLong_AsLongLong p rt
   \<and> (\<forall>n. deref p rt = Some (PyLongV n) \<and> - (2 ^ 63) \<le> n \<and> n < 2 ^ 63 \<longrightarrow>
        py_to_double p rt = Some (int_to_double n, rt)
        \<and> int_to_double n = ll_to_double (word_of_int n))"
proof -
  have fallback: "PyFloat_Check p rt = Some False \<and> PyLong_Check p rt = Some False \<longrightarrow>
      py_to_double p rt = Some (0, rt)"
    by (simp add: py_to_double_def)
  have bare: "py_to_long p rt = PyLong_AsLongLong p rt"
    by (simp add: py_to_long_def)
  have widen: "py_to_double p rt = Some (int_to_double n, rt)
        \<and> int_to_double n = ll_to_double (word_of_int n)"
    if obj_n: "deref p rt = Some (PyLongV n)" and lo: "- (2 ^ 63) \<le> n" and hi: "n < 2 ^ 63" for n
  proof -
    have sint_n: "sint (word_of_int n :: long_long) = n"
      using lo hi by (simp add: sint_sbintrunc' signed_take_bit_int_eq_self)
    have conv: "int_to_double n = ll_to_double (word_of_int n)"
      by (simp add: ll_to_double_def sint_n)
    have "py_to_double p rt = Some (ll_to_double (word_of_int n), rt)"
      using obj_n lo hi
      by (cases p)
        (simp_all add: py_to_double_def PyFloat_Check_def PyLong_Check_def
          PyLong_AsLongLong_def deref_def)
    with conv show ?thesis by simp
  qed
  show ?thesis
    using fallback bare widen by blast
qed

theorem py_to_double_lenient_witness:
  "PyFloat_Check (Some 2) rt_example = Some False
   \<and> PyLong_Check (Some 2) rt_example = Some False
   \<and> py_to_double (Some 2) rt_example = Some (0, rt_example)
   \<and> py_to_long (Some 2) rt_example = PyLong_AsLongLong (Some 2) rt_example
   \<and> deref (Some 1) rt_example = Some (PyLongV 42)
   \<and> py_to_double (Some 1) rt_example = Some (0x4045000000000000, rt_example)"
proof -
  have s: "PyFloat_Check (Some 2) rt_example = Some False"
    "PyLong_Check (Some 2) rt_example = Some False"
    "deref (Some 1) rt_example = Some (PyLongV 42)"
    by (simp_all add: PyFloat_Check_def PyLong_Check_def deref_def rt_example_def)
  have c: "int_to_double 42 = 0x4045000000000000"
    by (simp add: int_to_double_def round_mantissa_def Let_def)
  from py_to_double_lenient [of "Some 2" rt_example] s
  have zero: "py_to_double (Some 2) rt_example = Some (0, rt_example)"
    and bare: "py_to_long (Some 2) rt_example = PyLong_AsLongLong (Some 2) rt_example"
    by blast+
  from py_to_double_lenient [of "Some 1" rt_example] s(3)
  have "py_to_double (Some 1) rt_example = Some (int_to_double 42, rt_example)"
    by simp
  with c have wide: "py_to_double (Some 1) rt_example = Some (0x4045000000000000, rt_example)"
    by simp
  show ?thesis
    using s zero bare wide by blast
qed

text \<open>
  C9. \<open>py_to_bool\<close> compares the result of the runtime's truth test with zero and nothing
  else. When the test fails (a negative result, with the error raised by the runtime)
  \<open>py_to_bool\<close> returns true, as it does for a true object, and the error indicator stays
  set; it returns false exactly when the test succeeds with result zero.
\<close>

theorem py_to_bool_failed_truth_test:
  "PyObject_IsTrue p rt = Some (r, rt') \<Longrightarrow>
     py_to_bool p rt = Some (r \<noteq> 0, rt')
     \<and> (r < 0 \<longrightarrow> py_to_bool p rt = Some (True, rt') \<and> err rt' \<noteq> None)
     \<and> (0 < r \<longrightarrow> py_to_bool p rt = Some (True, rt'))
     \<and> (py_to_bool p rt = Some (False, rt') \<longleftrightarrow> r = 0)"
  by (auto simp: py_to_bool_def PyObject_IsTrue_def set_err_def
      split: option.splits py_value.splits sum.splits if_splits)

theorem py_to_bool_failed_truth_test_witness:
  "PyObject_IsTrue (Some 3) rt_example = Some (- 1, set_err ValueError rt_example)
   \<and> py_to_bool (Some 3) rt_example = Some (True, set_err ValueError rt_example)
   \<and> err (set_err ValueError rt_example) = Some ValueError
   \<and> PyObject_IsTrue (Some 1) rt_example = Some (1, rt_example)
   \<and> py_to_bool (Some 1) rt_example = Some (True, rt_example)
   \<and> PyObject_IsTrue (Some 5) rt_example = Some (0, rt_example)
   \<and> py_to_bool (Some 5) rt_example = Some (False, rt_example)"
proof -
  have failing: "PyObject_IsTrue (Some 3) rt_example = Some (- 1, set_err ValueError rt_example)"
    by (simp add: PyObject_IsTrue_def deref_def rt_example_def)
  have truthy: "PyObject_IsTrue (Some 1) rt_example = Some (1, rt_example)"
    by (simp add: PyObject_IsTrue_def deref_def rt_example_def)
  have falsy: "PyObject_IsTrue (Some 5) rt_example = Some (0, rt_example)"
    by (simp add: PyObject_IsTrue_def deref_def rt_example_def)
  show ?thesis
    using failing truthy falsy
      py_to_bool_failed_truth_test [OF failing]
      py_to_bool_failed_truth_test [OF truthy]
      py_to_bool_failed_truth_test [OF falsy]
    by (simp add: set_err_def)
qed

subsection \<open>NumpyBuffer\<close>

lemma views_of_simps:
  "views_of None a = False" "views_of (Some b) a \<longleftrightarrow> valid b \<and> obj (view b) = Some a"
  by (simp_all add: views_of_def)

lemma view_count_append:
  "view_count (bs @ [x]) a = view_count bs a + (if views_of x a then 1 else 0)"
  by (simp add: view_count_def)

lemma view_count_update:
  "i < length bs \<Longrightarrow>
     view_count (bs[i := x]) a
       = view_count bs a - (if views_of (bs ! i) a then 1 else 0)
           + (if views_of x a then 1 else 0)"
  unfolding view_count_def by (rule count_update)

lemma PyBuffer_Release_ledger:
  "exports (snd (PyBuffer_Release v rt)) a = exports rt a - (if obj v = Some a then 1 else 0)"
  "refcnt (snd (PyBuffer_Release v rt)) a = refcnt rt a - (if obj v = Some a then 1 else 0)"
  by (simp_all add: PyBuffer_Release_def split: option.splits)

lemma NumpyBuffer_dtor_ledger:
  "exports (NumpyBuffer_dtor b rt) a = exports rt a - (if views_of (Some b) a then 1 else 0)"
  "refcnt (NumpyBuffer_dtor b rt) a = refcnt rt a - (if views_of (Some b) a then 1 else 0)"
  by (simp_all add: NumpyBuffer_dtor_def PyBuffer_Release_ledger views_of_simps)

lemma NumpyBuffer_ctor_ledger:
  assumes "NumpyBuffer_ctor uninit arr rt = Some (b, rt')"
  shows "exports rt' a = exports rt a + (if views_of (Some b) a then 1 else 0)"
    and "refcnt rt' a = refcnt rt a + (if views_of (Some b) a then 1 else 0)"
  using assms
  by (auto simp: NumpyBuffer_ctor_def PyObject_GetBuffer_def set_err_def views_of_simps
      split: option.splits py_value.splits)

lemma NumpyBuffer_move_views:
  "views_of (Some (fst (NumpyBuffer_move b))) a = views_of (Some b) a"
  "views_of (Some (snd (NumpyBuffer_move b))) a = False"
  by (simp_all add: NumpyBuffer_move_def views_of_simps)

lemma NumpyBuffer_move_assign_ledger:
  assumes "NumpyBuffer_move_assign this other rt = (this', other', rt')"
  shows "views_of (Some this') a = views_of (Some other) a"
    and "views_of (Some other') a = False"
    and "exports rt' a = exports rt a - (if views_of (Some this) a then 1 else 0)"
    and "refcnt rt' a = refcnt rt a - (if views_of (Some this) a then 1 else 0)"
  using assms
  by (auto simp: NumpyBuffer_move_assign_def views_of_simps PyBuffer_Release_ledger)

lemma buffer_step_ledger:
  assumes "buffer_step x w = Some w'"
  shows "exports (brt w') a - view_count (buffers w') a
           = exports (brt w) a - view_count (buffers w) a
         \<and> refcnt (brt w') a - view_count (buffers w') a
           = refcnt (brt w) a - view_count (buffers w) a"
proof (cases x)
  case (BufDefault uninit)
  with assms show ?thesis
    by (auto simp: view_count_append views_of_simps NumpyBuffer_default_def)
next
  case (BufAcquire uninit arr)
  with assms obtain b r where c: "NumpyBuffer_ctor uninit arr (brt w) = Some (b, r)"
    and w': "w' = \<lparr>buffers = buffers w @ [Some b], brt = r\<rparr>"
    by (auto split: option.splits)
  show ?thesis
    unfolding w' using NumpyBuffer_ctor_ledger [OF c, of a]
    by (simp add: view_count_append)
next
  case (BufMove i)
  with assms show ?thesis
    by (auto simp: view_count_append view_count_update NumpyBuffer_move_views live_def
        split: option.splits if_splits)
next
  case (BufMoveAssign i j)
  show ?thesis
  proof (cases "i = j")
    case True
    with assms BufMoveAssign show ?thesis
      by (auto split: option.splits)
  next
    case False
    with assms BufMoveAssign obtain this other this' other' r where
      l: "i < length (buffers w)" "buffers w ! i = Some this"
         "j < length (buffers w)" "buffers w ! j = Some other"
      and m: "NumpyBuffer_move_assign this other (brt w) = (this', other', r)"
      and w': "w' = \<lparr>buffers = (buffers w)[i := Some this', j := Some other'], brt = r\<rparr>"
      by (auto simp: live_def split: option.splits if_splits prod.splits)
    show ?thesis
      unfolding w' using l False NumpyBuffer_move_assign_ledger [OF m, of a]
      by (simp add: view_count_update nth_list_update)
  qed
next
  case (BufDestroy i)
  with assms show ?thesis
    by (auto simp: view_count_update NumpyBuffer_dtor_ledger views_of_simps live_def
        split: option.splits if_splits)
qed

lemma buffer_run_ledger:
  "buffer_run ops w = Some w' \<Longrightarrow>
     exports (brt w') a - view_count (buffers w') a
       = exports (brt w) a - view_count (buffers w) a
     \<and> refcnt (brt w') a - view_count (buffers w') a
       = refcnt (brt w) a - view_count (buffers w) a"
proof (induction ops arbitrary: w)
  case Nil
  then show ?case by simp
next
  case (Cons x xs)
  from Cons.prems obtain w1 where w1: "buffer_step x w = Some w1" "buffer_run xs w1 = Some w'"
    by (auto split: option.splits)
  from Cons.IH [OF w1(2)] buffer_step_ledger [OF w1(1), of a]
  show ?case by simp
qed

lemma view_count_all_destroyed:
  "\<forall>x \<in> set bs. x = None \<Longrightarrow> view_count bs a = 0"
  by (induction bs) (auto simp: view_count_def views_of_def)

text \<open>
  C6. For every object that does not export a buffer, constructing a \<open>NumpyBuffer\<close> over it
  gives an invalid view: \<open>valid()\<close> is false and the descriptor names no exporter. The
  attempt leaves every reference count, every export count and every object as they were;
  the one trace of it is the runtime's error indicator, which the failed request raised.
  Destroying the invalid view releases nothing: it leaves any runtime state unchanged.
\<close>

theorem NumpyBuffer_failed_acquire:
  "deref arr rt = Some v \<Longrightarrow> \<not> exports_buffer v \<Longrightarrow>
     (\<exists>b. NumpyBuffer_ctor uninit arr rt = Some (b, set_err TypeError rt)
          \<and> \<not> NumpyBuffer_valid b
          \<and> obj (view b) = None
          \<and> (\<forall>r. NumpyBuffer_dtor b r = r))
     \<and> refcnt (set_err TypeError rt) = refcnt rt
     \<and> exports (set_err TypeError rt) = exports rt
     \<and> objs (set_err TypeError rt) = objs rt"
  by (cases arr; cases v)
    (auto simp: NumpyBuffer_ctor_def PyObject_GetBuffer_def deref_def exports_buffer_def
      NumpyBuffer_valid_def NumpyBuffer_dtor_def set_err_def)

theorem NumpyBuffer_failed_acquire_witness:
  "NumpyBuffer_ctor garbage (Some 1) rt_example
     = Some (\<lparr>view = garbage\<lparr>obj := None\<rparr>, valid = False\<rparr>, set_err TypeError rt_example)
   \<and> refcnt (set_err TypeError rt_example) 1 = 2
   \<and> refcnt rt_example 1 = 2
   \<and> NumpyBuffer_dtor \<lparr>view = garbage\<lparr>obj := None\<rparr>, valid = False\<rparr>
        (set_err TypeError rt_example) = set_err TypeError rt_example"
proof -
  have d: "deref (Some 1) rt_example = Some (PyLongV 42)"
    by (simp add: deref_def rt_example_def)
  have n: "\<not> exports_buffer (PyLongV 42)"
    by (simp add: exports_buffer_def)
  have rc: "refcnt rt_example 1 = 2"
    by (simp add: rt_example_def)
  have c: "NumpyBuffer_ctor garbage (Some 1) rt_example
     = Some (\<lparr>view = garbage\<lparr>obj := None\<rparr>, valid = False\<rparr>, set_err TypeError rt_example)"
    using d by (simp add: NumpyBuffer_ctor_def PyObject_GetBuffer_def deref_def)
  have dt: "NumpyBuffer_dtor \<lparr>view = garbage\<lparr>obj := None\<rparr>, valid = False\<rparr>
        (set_err TypeError rt_example) = set_err TypeError rt_example"
    by (simp add: NumpyBuffer_dtor_def)
  from NumpyBuffer_failed_acquire [OF d n, of garbage]
  have same: "refcnt (set_err TypeError rt_example) = refcnt rt_example"
    by blast
  show ?thesis
    using c dt rc same by simp
qed

text \<open>
  C8. For every sequence of constructions, moves, move assignments and destructions of
  buffers and every exporter, the views of the exporter that are outstanding in the
  runtime are exactly those held by the live valid buffers, at every point, and so are the
  references taken with them; when every buffer has been destroyed each view acquired
  has been released once. Destroying a valid buffer releases its view; moving hands the
  descriptor to the new buffer and leaves the source invalid, so that destroying the
  source releases nothing; move assignment releases the target's own view first if it
  is valid, then adopts the source's and leaves the source invalid. There is no operation
  that copies a buffer.
\<close>

theorem NumpyBuffer_released_exactly_once:
  "buffer_run ops w = Some w' \<Longrightarrow>
     exports (brt w') a - exports (brt w) a
       = view_count (buffers w') a - view_count (buffers w) a
     \<and> refcnt (brt w') a - refcnt (brt w) a
       = view_count (buffers w') a - view_count (buffers w) a
     \<and> (buffers w = [] \<and> (\<forall>x \<in> set (buffers w'). x = None) \<longrightarrow>
          exports (brt w') a = exports (brt w) a \<and> refcnt (brt w') a = refcnt (brt w) a)
     \<and> (valid b \<longrightarrow> NumpyBuffer_dtor b r = snd (PyBuffer_Release (view b) r))
     \<and> fst (NumpyBuffer_move b) = \<lparr>view = view b, valid = valid b\<rparr>
     \<and> \<not> valid (snd (NumpyBuffer_move b))
     \<and> NumpyBuffer_dtor (snd (NumpyBuffer_move b)) r = r
     \<and> (case NumpyBuffer_move_assign b c r of
          (this', other', r') \<Rightarrow>
            r' = (if valid b then snd (PyBuffer_Release (view b) r) else r)
            \<and> this' = \<lparr>view = view c, valid = valid c\<rparr>
            \<and> \<not> valid other'
            \<and> NumpyBuffer_dtor other' r' = r')"
proof -
  assume run: "buffer_run ops w = Some w'"
  note ledger = buffer_run_ledger [OF run, of a]
  have e: "exports (brt w') a - exports (brt w) a
       = view_count (buffers w') a - view_count (buffers w) a"
    using ledger by simp
  have r: "refcnt (brt w') a - refcnt (brt w) a
       = view_count (buffers w') a - view_count (buffers w) a"
    using ledger by simp
  have fin: "buffers w = [] \<and> (\<forall>x \<in> set (buffers w'). x = None) \<longrightarrow>
          exports (brt w') a = exports (brt w) a \<and> refcnt (brt w') a = refcnt (brt w) a"
    using e r view_count_all_destroyed [of "buffers w'" a] view_count_all_destroyed [of "[]" a]
    by auto
  show ?thesis
    using e r fin
    by (simp add: NumpyBuffer_dtor_def NumpyBuffer_move_def NumpyBuffer_move_assign_def)
qed

theorem NumpyBuffer_released_exactly_once_witness:
  "map_option (\<lambda>w. (buffers w, exports (brt w) 4, refcnt (brt w) 4))
     (buffer_run [BufAcquire garbage (Some 4), BufMove 0, BufDefault garbage, BufMoveAssign 2 1,
                  BufAcquire garbage (Some 4), BufMoveAssign 3 2,
                  BufDestroy 0, BufDestroy 1, BufDestroy 2, BufDestroy 3] bw_example)
     = Some ([None, None, None, None], 0, 1)
   \<and> exports (brt bw_example) 4 = 0 \<and> refcnt (brt bw_example) 4 = 1
   \<and> map_option (\<lambda>w. (exports (brt w) 4, refcnt (brt w) 4, view_count (buffers w) 4))
     (buffer_run [BufAcquire garbage (Some 4), BufMove 0, BufDefault garbage, BufMoveAssign 2 1,
                  BufAcquire garbage (Some 4)] bw_example)
     = Some (2, 3, 2)"
proof -
  let ?ops = "[BufAcquire garbage (Some 4), BufMove 0, BufDefault garbage, BufMoveAssign 2 1,
                  BufAcquire garbage (Some 4), BufMoveAssign 3 2,
                  BufDestroy 0, BufDestroy 1, BufDestroy 2, BufDestroy 3]"
  let ?pre = "[BufAcquire garbage (Some 4), BufMove 0, BufDefault garbage, BufMoveAssign 2 1,
                  BufAcquire garbage (Some 4)]"
  have init: "buffers bw_example = []" "exports (brt bw_example) 4 = 0"
    "refcnt (brt bw_example) 4 = 1"
    by (simp_all add: bw_example_def rt_example_def)
  obtain w1 where run1: "buffer_run ?ops bw_example = Some w1"
    and b1: "buffers w1 = [None, None, None, None]"
    by (simp add: bw_example_def rt_example_def NumpyBuffer_ctor_def PyObject_GetBuffer_def
        NumpyBuffer_move_def NumpyBuffer_default_def NumpyBuffer_move_assign_def
        NumpyBuffer_dtor_def PyBuffer_Release_def live_def eval_nat_numeral)
  obtain w2 where run2: "buffer_run ?pre bw_example = Some w2"
    and b2: "view_count (buffers w2) 4 = 2"
    by (simp add: bw_example_def rt_example_def NumpyBuffer_ctor_def PyObject_GetBuffer_def
        NumpyBuffer_move_def NumpyBuffer_default_def NumpyBuffer_move_assign_def
        NumpyBuffer_dtor_def PyBuffer_Release_def live_def eval_nat_numeral
        view_count_def views_of_def)
  show ?thesis
    unfolding run1 run2
    using NumpyBuffer_released_exactly_once [OF run1, of 4 "NumpyBuffer_default garbage" rt_example
        "NumpyBuffer_default garbage"]
      NumpyBuffer_released_exactly_once [OF run2, of 4 "NumpyBuffer_default garbage" rt_example
        "NumpyBuffer_default garbage"] init b1 b2
    by (simp add: view_count_def views_of_def)
qed

subsection \<open>GILGuard and GILRelease\<close>

lemma GILGuard_ctor_Held:
  "GILGuard_ctor l = Done (\<lparr>state = (case l of NotHeld \<Rightarrow> PyGILState_UNLOCKED | Held \<Rightarrow> PyGILState_LOCKED)\<rparr>, Held)"
  by (cases l) (simp_all add: GILGuard_ctor_def PyGILState_Ensure_def lock_bind_def)

lemma GILGuard_dtor_restores:
  "GILGuard_dtor \<lparr>state = (case l of NotHeld \<Rightarrow> PyGILState_UNLOCKED | Held \<Rightarrow> PyGILState_LOCKED)\<rparr> Held = Done l"
  by (cases l) (simp_all add: GILGuard_dtor_def PyGILState_Release_def)

lemma nested_guards_restore: "nested_guards n l = Done l"
proof (induction n arbitrary: l)
  case 0
  show ?case by simp
next
  case (Suc n)
  show ?case
    by (simp add: GILGuard_ctor_Held lock_bind_def Suc GILGuard_dtor_restores)
qed

text \<open>
  C7. From either lock state, constructing a \<open>GILGuard\<close> leaves the lock held (from \<open>Held\<close>
  nothing changes) and destroying it restores the state from before the construction, so
  construction followed at once by destruction leaves the lock state as it was.
  Constructing a \<open>GILRelease\<close> while the lock is held gives it up, and destroying it takes
  it again. Any number of guards nested on one thread runs to the end, with neither a
  deadlock nor a fatal error, and restores the lock state.
\<close>

theorem GILGuard_round_trip:
  "(\<exists>g. GILGuard_ctor l = Done (g, Held) \<and> GILGuard_dtor g Held = Done l)
   \<and> GILGuard_ctor NotHeld = Done (\<lparr>state = PyGILState_UNLOCKED\<rparr>, Held)
   \<and> GILGuard_ctor Held = Done (\<lparr>state = PyGILState_LOCKED\<rparr>, Held)
   \<and> lock_bind (GILGuard_ctor l) (\<lambda>(g, l'). GILGuard_dtor g l') = Done l
   \<and> (\<exists>g. GILRelease_ctor Held = Done (g, NotHeld) \<and> GILRelease_dtor g NotHeld = Done Held)
   \<and> lock_bind (GILRelease_ctor Held) (\<lambda>(g, l'). GILRelease_dtor g l') = Done Held
   \<and> nested_guards n l = Done l"
proof -
  have a: "\<exists>g. GILGuard_ctor l = Done (g, Held) \<and> GILGuard_dtor g Held = Done l"
    using GILGuard_ctor_Held [of l] GILGuard_dtor_restores [of l] by blast
  have b: "lock_bind (GILGuard_ctor l) (\<lambda>(g, l'). GILGuard_dtor g l') = Done l"
    by (simp add: GILGuard_ctor_Held lock_bind_def GILGuard_dtor_restores)
  have c: "GILRelease_ctor Held = Done (\<lparr>save = ThisThread\<rparr>, NotHeld)"
    "GILRelease_dtor \<lparr>save = ThisThread\<rparr> NotHeld = Done Held"
    by (simp_all add: GILRelease_ctor_def GILRelease_dtor_def PyEval_SaveThread_def
        PyEval_RestoreThread_def lock_bind_def)
  show ?thesis
    using a b c nested_guards_restore [of n l]
    by (simp add: GILGuard_ctor_Held lock_bind_def)
qed

theorem GILGuard_round_trip_witness:
  "lock_bind (GILGuard_ctor NotHeld) (\<lambda>(g, l'). GILGuard_dtor g l') = Done NotHeld
   \<and> lock_bind (GILGuard_ctor Held) (\<lambda>(g, l'). GILGuard_dtor g l') = Done Held
   \<and> nested_guards 3 NotHeld = Done NotHeld
   \<and> nested_guards 3 Held = Done Held"
  using GILGuard_round_trip [of NotHeld 3] GILGuard_round_trip [of Held 3]
  by (simp add: lock_bind_def GILGuard_dtor_def PyGILState_Release_def)

end
